theory Spec2Isabelle
  imports Complex_Main "HOL-Library.AList"
begin

section \<open>Numbers and data model\<close>

text \<open>
  The engine computes with Python floats and ints. Floats are modelled by the reals
  (exact arithmetic, no rounding, no overflow, no NaN), ints by \<open>int\<close>. A Python
  \<open>dict\<close> keeps its keys in insertion order and the loops of the engine iterate in that
  order, so a dict is an association list; \<open>AList.update\<close> overwrites a key in place
  or appends a new key, as \<open>d[k] = v\<close> does. The price dict is only ever looked up, so it
  is a map.
\<close>

definition py_int :: "real \<Rightarrow> int" where
  \<comment> \<open>\<open>int(x)\<close> on a float: truncation toward zero\<close>
  "py_int x = (if 0 \<le> x then \<lfloor>x\<rfloor> else \<lceil>x\<rceil>)"

definition floordiv :: "real \<Rightarrow> real \<Rightarrow> real" where
  \<comment> \<open>\<open>x // y\<close> on floats, for \<open>y \<noteq> 0\<close>\<close>
  "floordiv x y = of_int \<lfloor>x / y\<rfloor>"

record holding =
  totalAmount :: int
  last_price :: real
  entry_price :: real

type_synonym portfolio = "(string \<times> holding) list"
type_synonym prices = "string \<rightharpoonup> real"
type_synonym change = "string \<times> int \<times> int"

text \<open>
  A snapshot dict. A key that is absent reads as the default of the \<open>.get\<close> that reads
  it, which is 0 for every field, so an absent field is the field 0.
\<close>

record snapshot =
  portfolio :: portfolio
  cash :: real
  portfolio_value :: real
  net_liquidation :: real
  liquid :: real
  buying_power :: real

definition mk_snapshot :: "portfolio \<Rightarrow> real \<Rightarrow> snapshot" where
  \<comment> \<open>the literal \<open>{"portfolio": pf, "cash": c}\<close>\<close>
  "mk_snapshot pf c =
     \<lparr>portfolio = pf, cash = c, portfolio_value = 0, net_liquidation = 0, liquid = 0,
      buying_power = 0\<rparr>"

definition get_qty :: "portfolio \<Rightarrow> string \<Rightarrow> int" where
  \<comment> \<open>\<open>int(pf.get(t, {}).get("totalAmount", 0))\<close>\<close>
  "get_qty pf t = (case map_of pf t of None \<Rightarrow> 0 | Some h \<Rightarrow> totalAmount h)"

definition get_last :: "portfolio \<Rightarrow> string \<Rightarrow> real" where
  \<comment> \<open>\<open>pf.get(t, {}).get("last_price", 0.0)\<close>\<close>
  "get_last pf t = (case map_of pf t of None \<Rightarrow> 0 | Some h \<Rightarrow> last_price h)"

definition get_entry :: "portfolio \<Rightarrow> string \<Rightarrow> real" where
  \<comment> \<open>\<open>float(pf.get(t, {}).get("entry_price", 0.0))\<close>\<close>
  "get_entry pf t = (case map_of pf t of None \<Rightarrow> 0 | Some h \<Rightarrow> entry_price h)"

definition px_of :: "prices \<Rightarrow> portfolio \<Rightarrow> string \<Rightarrow> real" where
  \<comment> \<open>\<open>float(prices.get(t, pf.get(t, {}).get("last_price", 0.0)))\<close>\<close>
  "px_of pr pf t = (case pr t of Some p \<Rightarrow> p | None \<Rightarrow> get_last pf t)"

section \<open>portfolio.py: valuation\<close>

definition market_value_of :: "portfolio \<Rightarrow> real" where
  "market_value_of pf = (\<Sum>(t, h) \<leftarrow> pf. of_int (totalAmount h) * last_price h)"

definition compute_market_value :: "snapshot \<Rightarrow> real" where
  "compute_market_value s = market_value_of (portfolio s)"

definition reprice :: "prices \<Rightarrow> portfolio \<Rightarrow> portfolio" where
  \<comment> \<open>the first loop of \<open>update_snapshot_prices\<close>\<close>
  "reprice pr pf =
     map (\<lambda>(t, h). case pr t of Some p \<Rightarrow> (t, h\<lparr>last_price := p\<rparr>) | None \<Rightarrow> (t, h)) pf"

definition update_snapshot_prices :: "snapshot \<Rightarrow> prices \<Rightarrow> snapshot" where
  "update_snapshot_prices s pr =
     (let pf = reprice pr (portfolio s);
          market_value = market_value_of pf;
          c = cash s;
          net_liq = market_value + c
      in s\<lparr>portfolio := pf, portfolio_value := net_liq, net_liquidation := net_liq,
           liquid := c, buying_power := net_liq\<rparr>)"


section \<open>portfolio.py: the emergency sells shared by the two correction passes\<close>

type_synonym candidate = "string \<times> int \<times> real \<times> real"

definition cand_px :: "prices \<Rightarrow> string \<Rightarrow> holding \<Rightarrow> real" where
  \<comment> \<open>\<open>float(prices.get(t, info.get("last_price", 0.0)))\<close>\<close>
  "cand_px pr t h = (case pr t of Some p \<Rightarrow> p | None \<Rightarrow> last_price h)"

definition sell_candidates :: "prices \<Rightarrow> portfolio \<Rightarrow> candidate list" where
  "sell_candidates pr pf =
     map (\<lambda>(t, h). (t, totalAmount h, cand_px pr t h, of_int (totalAmount h) * cand_px pr t h))
       (filter (\<lambda>(t, h). \<not> totalAmount h \<le> 0 \<and> \<not> cand_px pr t h \<le> 0) pf)"

definition sort_candidates :: "candidate list \<Rightarrow> candidate list" where
  \<comment> \<open>\<open>sort(key=lambda x: x[3], reverse=True)\<close>: stable, largest market value first\<close>
  "sort_candidates cs = sort_key (\<lambda>(t, q, px, mv). - mv) cs"

text \<open>
  The loop over the sorted candidates. The state is the portfolio, the cash, the
  remaining shortfall and the change list; \<open>force_cash_non_negative\<close> runs the same
  loop body and keeps no change list.
\<close>

fun emergency_sells ::
  "candidate list \<Rightarrow> portfolio \<times> real \<times> real \<times> change list \<Rightarrow>
   portfolio \<times> real \<times> real \<times> change list" where
  "emergency_sells [] st = st"
| "emergency_sells ((t, qty, px, mv) # cs) (pf, c, shortfall, ch) =
     (if shortfall \<le> 0 then (pf, c, shortfall, ch)
      else
        let sell_qty = min qty \<lceil>shortfall / px\<rceil> in
        if sell_qty \<le> 0 then emergency_sells cs (pf, c, shortfall, ch)
        else
          let prev_q = get_qty pf t;
              new_q = prev_q - sell_qty;
              prev_entry = get_entry pf t
          in emergency_sells cs
               (AList.update t
                  \<lparr>totalAmount = new_q, last_price = px, entry_price = prev_entry\<rparr> pf,
                c + of_int sell_qty * px,
                max 0 (shortfall - of_int sell_qty * px),
                ch @ [(t, prev_q, new_q)]))"

definition drop_zero :: "portfolio \<Rightarrow> portfolio" where
  \<comment> \<open>\<open>for t in list(pf.keys()): if totalAmount <= 0: del pf[t]\<close>\<close>
  "drop_zero pf = filter (\<lambda>(t, h). \<not> totalAmount h \<le> 0) pf"

definition force_cash_non_negative :: "snapshot \<Rightarrow> prices \<Rightarrow> snapshot" where
  "force_cash_non_negative s pr =
     (let c = cash s in
      if c \<ge> 0 then update_snapshot_prices s pr
      else
        let pf = portfolio s;
            shortfall = - c;
            (pf', c', shortfall', ch) =
               emergency_sells (sort_candidates (sell_candidates pr pf)) (pf, c, shortfall, [])
        in update_snapshot_prices (mk_snapshot (drop_zero pf') (max 0 c')) pr)"

section \<open>portfolio.py: partial rebalance\<close>

type_synonym buy_req = "string \<times> int \<times> real \<times> real"
type_synonym applied_buy = "string \<times> int \<times> real"

definition subset_value :: "snapshot \<Rightarrow> prices \<Rightarrow> (string \<times> real) list \<Rightarrow> real" where
  "subset_value temp pr tw =
     (\<Sum>(t, w) \<leftarrow> tw. of_int (get_qty (portfolio temp) t) * px_of pr (portfolio temp) t)"

definition target_dollars ::
  "real \<Rightarrow> real \<Rightarrow> (string \<times> real) list \<Rightarrow> (string \<times> real) list" where
  "target_dollars total_equity per_name_cap tw =
     map (\<lambda>(t, w). (t, min (max 0 w * total_equity) per_name_cap)) tw"

definition target_qty_map ::
  "prices \<Rightarrow> portfolio \<Rightarrow> (string \<times> real) list \<Rightarrow> (string \<times> int) list" where
  "target_qty_map pr portfolio_prev tds =
     map (\<lambda>(t, dollars).
            let px = px_of pr portfolio_prev t in
            (t, if px \<le> 0 then get_qty portfolio_prev t else py_int (floordiv dollars px)))
       tds"

fun sell_down ::
  "prices \<Rightarrow> portfolio \<Rightarrow> (string \<times> int) list \<Rightarrow> real \<times> change list \<Rightarrow> real \<times> change list"
  where
  "sell_down pr portfolio_prev [] st = st"
| "sell_down pr portfolio_prev ((t, tq) # r) (c, ch) =
     (let prev_q = get_qty portfolio_prev t;
          px = px_of pr portfolio_prev t
      in if tq < prev_q
         then sell_down pr portfolio_prev r (c + of_int (prev_q - tq) * px, ch @ [(t, prev_q, tq)])
         else sell_down pr portfolio_prev r (c, ch))"

definition buy_reqs :: "prices \<Rightarrow> portfolio \<Rightarrow> (string \<times> int) list \<Rightarrow> buy_req list" where
  "buy_reqs pr portfolio_prev tqs =
     map (\<lambda>(t, tq).
            let px = px_of pr portfolio_prev t; need_q = tq - get_qty portfolio_prev t
            in (t, need_q, px, of_int need_q * px))
       (filter (\<lambda>(t, tq). tq > get_qty portfolio_prev t) tqs)"

definition total_cost_of :: "buy_req list \<Rightarrow> real" where
  "total_cost_of reqs = (\<Sum>(t, need_q, px, cost) \<leftarrow> reqs. cost)"

definition buy_scale :: "real \<Rightarrow> real \<Rightarrow> real" where
  "buy_scale total_cost allowable_budget =
     (if total_cost > allowable_budget \<and> total_cost > 0 then allowable_budget / total_cost
      else 1)"

fun apply_buys ::
  "real \<Rightarrow> buy_req list \<Rightarrow> portfolio \<times> real \<times> change list \<times> applied_buy list \<Rightarrow>
   portfolio \<times> real \<times> change list \<times> applied_buy list" where
  "apply_buys scale [] st = st"
| "apply_buys scale ((t, need_q, px, cost) # r) (pf, c, ch, ab) =
     (let buy_q = py_int (of_int need_q * scale) in
      if buy_q \<le> 0 then apply_buys scale r (pf, c, ch, ab)
      else
        let prev_q = get_qty pf t;
            new_q = prev_q + buy_q;
            prev_entry = get_entry pf t;
            new_entry =
              (if prev_q > 0
               then (of_int prev_q * prev_entry + of_int buy_q * px) / of_int new_q
               else px)
        in apply_buys scale r
             (AList.update t \<lparr>totalAmount = new_q, last_price = px, entry_price = new_entry\<rparr> pf,
              c - of_int buy_q * px,
              ch @ [(t, prev_q, new_q)],
              ab @ [(t, buy_q, px)]))"

text \<open>The inner \<open>while bq > 0 and cash < 0\<close> loop: one share back per round.\<close>

function unwind_shares ::
  "string \<Rightarrow> int \<Rightarrow> real \<Rightarrow> portfolio \<Rightarrow> real \<Rightarrow> portfolio \<times> real" where
  "unwind_shares t bq px pf c =
     (if bq > 0 \<and> c < 0 then
        (let prev_q = get_qty pf t in
         if prev_q \<le> 0 then (pf, c)
         else unwind_shares t (bq - 1) px
                (AList.update t
                   \<lparr>totalAmount = prev_q - 1, last_price = px, entry_price = get_entry pf t\<rparr> pf)
                (c + px))
      else (pf, c))"
  by pat_completeness auto
termination
  by (relation "measure (\<lambda>(t, bq, px, pf, c). nat bq)") auto

fun unwind_buys :: "applied_buy list \<Rightarrow> portfolio \<times> real \<Rightarrow> portfolio \<times> real" where
  "unwind_buys [] st = st"
| "unwind_buys ((t, bq, px) # r) (pf, c) =
     (if c \<ge> 0 then (pf, c) else unwind_buys r (unwind_shares t bq px pf c))"

definition sort_applied :: "applied_buy list \<Rightarrow> applied_buy list" where
  \<comment> \<open>\<open>sort(key=lambda x: x[1] * x[2], reverse=True)\<close>\<close>
  "sort_applied ab = sort_key (\<lambda>(t, bq, px). - (of_int bq * px)) ab"

text \<open>The stages of \<open>apply_partial_target_weights\<close>, in the order of the source.\<close>

definition partial_total_equity :: "snapshot \<Rightarrow> prices \<Rightarrow> real" where
  \<comment> \<open>\<open>total_portfolio_equity\<close>: the repriced market value plus cash\<close>
  "partial_total_equity snapshot_prev pr =
     compute_market_value
       (update_snapshot_prices (mk_snapshot (portfolio snapshot_prev) (cash snapshot_prev)) pr)
     + cash snapshot_prev"

definition partial_target_qty ::
  "snapshot \<Rightarrow> prices \<Rightarrow> (string \<times> real) list \<Rightarrow> (string \<times> int) list" where
  "partial_target_qty snapshot_prev pr tw =
     (let portfolio_prev = portfolio snapshot_prev;
          c = cash snapshot_prev;
          temp = update_snapshot_prices (mk_snapshot portfolio_prev c) pr;
          total_equity = subset_value temp pr tw + c;
          per_name_cap = 0.05 * partial_total_equity snapshot_prev pr
      in target_qty_map pr portfolio_prev (target_dollars total_equity per_name_cap tw))"

definition partial_after_sells ::
  "snapshot \<Rightarrow> prices \<Rightarrow> (string \<times> real) list \<Rightarrow> real \<times> change list" where
  "partial_after_sells snapshot_prev pr tw =
     sell_down pr (portfolio snapshot_prev) (partial_target_qty snapshot_prev pr tw)
       (cash snapshot_prev, [])"

definition partial_buy_reqs ::
  "snapshot \<Rightarrow> prices \<Rightarrow> (string \<times> real) list \<Rightarrow> buy_req list" where
  "partial_buy_reqs snapshot_prev pr tw =
     buy_reqs pr (portfolio snapshot_prev) (partial_target_qty snapshot_prev pr tw)"

definition partial_allowable_budget ::
  "snapshot \<Rightarrow> prices \<Rightarrow> (string \<times> real) list \<Rightarrow> real" where
  "partial_allowable_budget snapshot_prev pr tw =
     min (fst (partial_after_sells snapshot_prev pr tw))
         (0.05 * partial_total_equity snapshot_prev pr)"

definition partial_scale :: "snapshot \<Rightarrow> prices \<Rightarrow> (string \<times> real) list \<Rightarrow> real" where
  "partial_scale snapshot_prev pr tw =
     buy_scale (total_cost_of (partial_buy_reqs snapshot_prev pr tw))
       (partial_allowable_budget snapshot_prev pr tw)"

definition partial_after_buys ::
  "snapshot \<Rightarrow> prices \<Rightarrow> (string \<times> real) list \<Rightarrow>
   portfolio \<times> real \<times> change list \<times> applied_buy list" where
  "partial_after_buys snapshot_prev pr tw =
     (let (c, ch) = partial_after_sells snapshot_prev pr tw
      in apply_buys (partial_scale snapshot_prev pr tw) (partial_buy_reqs snapshot_prev pr tw)
           (portfolio snapshot_prev, c, ch, []))"

definition cash_guard ::
  "prices \<Rightarrow> portfolio \<times> real \<times> change list \<times> applied_buy list \<Rightarrow>
   portfolio \<times> real \<times> change list" where
  \<comment> \<open>the two \<open>if cash < 0\<close> blocks: unwind buys, then emergency sells\<close>
  "cash_guard pr st =
     (let (pf2, c2, ch2, ab) = st;
          (pf3, c3) =
            (if c2 < 0 \<and> ab \<noteq> []
             then (let (p, c) = unwind_buys (sort_applied ab) (pf2, c2) in (drop_zero p, c))
             else (pf2, c2))
      in if c3 < 0
         then (let (p, c, sf, ch) =
                     emergency_sells (sort_candidates (sell_candidates pr pf3))
                       (pf3, c3, - c3, ch2)
               in (drop_zero p, c, ch))
         else (pf3, c3, ch2))"

text \<open>
  The tail of the function: build the snapshot and absorb an equity jump into cash.
  \<open>initial_total_equity\<close> and \<open>total_portfolio_equity\<close> are computed by the same
  expression in the source, so both are \<open>partial_total_equity\<close> here.
\<close>

definition enforce_equity :: "real \<Rightarrow> prices \<Rightarrow> portfolio \<Rightarrow> real \<Rightarrow> snapshot" where
  "enforce_equity initial_total_equity pr pf c =
     (let new_snapshot = update_snapshot_prices (mk_snapshot pf c) pr;
          after_equity = compute_market_value new_snapshot + cash new_snapshot;
          delta = initial_total_equity - after_equity
      in if \<bar>delta\<bar> > 1 / 1000000
         then update_snapshot_prices (new_snapshot\<lparr>cash := cash new_snapshot + delta\<rparr>) pr
         else new_snapshot)"

definition apply_partial_target_weights ::
  "snapshot \<Rightarrow> prices \<Rightarrow> (string \<times> real) list \<Rightarrow> snapshot \<times> change list" where
  "apply_partial_target_weights snapshot_prev pr tw =
     (let (pf, c, changes) = cash_guard pr (partial_after_buys snapshot_prev pr tw)
      in (enforce_equity (partial_total_equity snapshot_prev pr) pr pf c, changes))"

section \<open>portfolio.py: full rebalance\<close>

fun rebalance_loop ::
  "prices \<Rightarrow> portfolio \<Rightarrow> (string \<times> real) list \<Rightarrow> portfolio \<times> real \<times> change list \<Rightarrow>
   portfolio \<times> real \<times> change list" where
  "rebalance_loop pr portfolio_prev [] st = st"
| "rebalance_loop pr portfolio_prev ((ticker, td) # r) (new_portfolio, c, changes) =
     (let p = (case pr ticker of Some x \<Rightarrow> x | None \<Rightarrow> 0) in
      if p \<le> 0 then
        (let prev_qty = get_qty portfolio_prev ticker in
         if prev_qty > 0
         then rebalance_loop pr portfolio_prev r
                (AList.update ticker
                   \<lparr>totalAmount = prev_qty,
                    last_price = (if p > 0 then p else get_last portfolio_prev ticker),
                    entry_price = get_entry portfolio_prev ticker\<rparr> new_portfolio,
                 c, changes)
         else rebalance_loop pr portfolio_prev r (new_portfolio, c, changes))
      else
        (let tq = py_int (floordiv td p);
             prev_qty = get_qty portfolio_prev ticker;
             delta_qty = tq - prev_qty;
             c' = c - of_int delta_qty * p;
             prev_entry = get_entry portfolio_prev ticker;
             new_entry =
               (if delta_qty > 0 \<and> prev_qty > 0
                then (of_int prev_qty * prev_entry + of_int delta_qty * p)
                       / of_int (prev_qty + delta_qty)
                else if delta_qty > 0 \<and> prev_qty = 0 then p
                else prev_entry);
             new_portfolio' =
               (if tq > 0
                then AList.update ticker
                       \<lparr>totalAmount = tq, last_price = p, entry_price = new_entry\<rparr> new_portfolio
                else new_portfolio);
             changes' =
               (if prev_qty = tq then changes else changes @ [(ticker, prev_qty, tq)])
         in rebalance_loop pr portfolio_prev r (new_portfolio', c', changes')))"

fun keep_unpriced :: "prices \<Rightarrow> portfolio \<Rightarrow> portfolio \<Rightarrow> portfolio" where
  "keep_unpriced pr [] new_portfolio = new_portfolio"
| "keep_unpriced pr ((ticker, info) # r) new_portfolio =
     (if map_of new_portfolio ticker = None \<and> pr ticker = None
      then keep_unpriced pr r
             (AList.update ticker
                \<lparr>totalAmount = totalAmount info, last_price = last_price info,
                 entry_price = entry_price info\<rparr> new_portfolio)
      else keep_unpriced pr r new_portfolio)"

definition apply_target_weights ::
  "snapshot \<Rightarrow> string list \<Rightarrow> prices \<Rightarrow> real list \<Rightarrow> snapshot \<times> change list" where
  "apply_target_weights snapshot_prev tickers pr target_weights =
     (let portfolio_prev = portfolio snapshot_prev;
          cash_prev = cash snapshot_prev;
          temp = update_snapshot_prices (mk_snapshot portfolio_prev cash_prev) pr;
          market_value = compute_market_value temp;
          total_equity = market_value + cash_prev;
          tds = map (\<lambda>w. max 0 w * total_equity) target_weights;
          (new_portfolio, c, changes) =
             rebalance_loop pr portfolio_prev (zip tickers tds) ([], cash_prev, [])
      in (update_snapshot_prices (mk_snapshot (keep_unpriced pr portfolio_prev new_portfolio) c) pr,
          changes))"

section \<open>mvo\_blm\_runner.py: the snapshots the backtest writes\<close>

definition write_revaluation :: "snapshot \<Rightarrow> prices \<Rightarrow> snapshot" where
  \<comment> \<open>a day that is not a rebalance day\<close>
  "write_revaluation s pr = force_cash_non_negative (update_snapshot_prices s pr) pr"

definition write_rebalance :: "snapshot \<Rightarrow> prices \<Rightarrow> (string \<times> real) list \<Rightarrow> snapshot" where
  \<comment> \<open>a rebalance day: the partial rebalance, then the cash correction\<close>
  "write_rebalance s pr partial =
     force_cash_non_negative (fst (apply_partial_target_weights s pr partial)) pr"

section \<open>MVO\_BLM/pipeline.py: translating targets to trades\<close>

datatype py_error = ValueError | LinAlgError | ZeroDivisionError | KeyError








section \<open>Vectors and matrices\<close>

text \<open>
  A numpy vector is a list of reals and a matrix the list of its rows. The operands of
  a product or a sum are taken to be conformable; of numpy's own exceptions only those
  of the inversion routines are modelled.
\<close>

type_synonym vec = "real list"
type_synonym mat = "real list list"

definition dot :: "vec \<Rightarrow> vec \<Rightarrow> real" where
  "dot xs ys = (\<Sum>(x, y) \<leftarrow> zip xs ys. x * y)"

definition mat_vec :: "mat \<Rightarrow> vec \<Rightarrow> vec" where
  "mat_vec A v = map (\<lambda>row. dot row v) A"

definition mat_T :: "mat \<Rightarrow> mat" where
  "mat_T A = transpose A"

definition mat_mul :: "mat \<Rightarrow> mat \<Rightarrow> mat" where
  "mat_mul A B = map (\<lambda>row. map (\<lambda>col. dot row col) (mat_T B)) A"

definition mat_add :: "mat \<Rightarrow> mat \<Rightarrow> mat" where
  "mat_add A B = map (\<lambda>(r1, r2). map (\<lambda>(x, y). x + y) (zip r1 r2)) (zip A B)"

definition vec_add :: "vec \<Rightarrow> vec \<Rightarrow> vec" where
  "vec_add u v = map (\<lambda>(x, y). x + y) (zip u v)"

definition scal_mat :: "real \<Rightarrow> mat \<Rightarrow> mat" where
  "scal_mat k A = map (map (\<lambda>x. k * x)) A"

definition scal_vec :: "real \<Rightarrow> vec \<Rightarrow> vec" where
  "scal_vec k v = map (\<lambda>x. k * x) v"

definition diag_of :: "mat \<Rightarrow> vec" where
  \<comment> \<open>\<open>np.diag\<close> of a matrix\<close>
  "diag_of A = map (\<lambda>i. A ! i ! i) [0..<length A]"

definition diag_mat :: "vec \<Rightarrow> mat" where
  \<comment> \<open>\<open>np.diag\<close> of a vector\<close>
  "diag_mat v = map (\<lambda>i. map (\<lambda>j. if i = j then v ! i else 0) [0..<length v]) [0..<length v]"

definition eye :: "nat \<Rightarrow> mat" where
  "eye n = diag_mat (replicate n 1)"

definition is_shape :: "nat \<Rightarrow> nat \<Rightarrow> mat \<Rightarrow> bool" where
  "is_shape r c A = (length A = r \<and> list_all (\<lambda>row. length row = c) A)"

definition mat_size :: "mat \<Rightarrow> nat" where
  \<comment> \<open>\<open>A.size\<close>: the number of entries\<close>
  "mat_size A = length (concat A)"

text \<open>
  \<open>np.linalg.inv\<close> in exact arithmetic: the inverse by cofactors, and \<open>LinAlgError\<close>
  for a matrix that is not square or is singular.
\<close>

definition del_nth :: "nat \<Rightarrow> 'a list \<Rightarrow> 'a list" where
  "del_nth k xs = take k xs @ drop (Suc k) xs"

function det :: "mat \<Rightarrow> real" where
  "det [] = 1"
| "det (r # rs) = (\<Sum>j \<leftarrow> [0..<length r]. (- 1) ^ j * r ! j * det (map (del_nth j) rs))"
  by pat_completeness auto
termination
  by (relation "measure length") auto

definition minor :: "mat \<Rightarrow> nat \<Rightarrow> nat \<Rightarrow> mat" where
  "minor A i j = map (del_nth j) (del_nth i A)"

definition linalg_inv :: "mat \<Rightarrow> py_error + mat" where
  "linalg_inv A =
     (let n = length A in
      if \<not> is_shape n n A then Inl LinAlgError
      else if det A = 0 then Inl LinAlgError
      else Inr (map (\<lambda>i. map (\<lambda>j. (- 1) ^ (i + j) * det (minor A j i) / det A) [0..<n]) [0..<n]))"

text \<open>
  \<open>np.linalg.pinv\<close> is a parameter of the functions that call it: a routine from a
  matrix to its pseudo-inverse that can raise \<open>LinAlgError\<close>. The four Penrose
  equations say when a matrix is the pseudo-inverse of another, and \<open>pinv_diag\<close> is the
  pseudo-inverse on diagonal matrices (the reciprocal of every non-zero entry).
\<close>

definition is_pinv :: "mat \<Rightarrow> mat \<Rightarrow> bool" where
  "is_pinv A X =
     (mat_mul (mat_mul A X) A = A \<and> mat_mul (mat_mul X A) X = X \<and>
      mat_T (mat_mul A X) = mat_mul A X \<and> mat_T (mat_mul X A) = mat_mul X A)"

definition pinv_diag :: "mat \<Rightarrow> py_error + mat" where
  "pinv_diag A = Inr (map (map (\<lambda>x. if x = 0 then 0 else 1 / x)) A)"

definition bind_err :: "'e + 'a \<Rightarrow> ('a \<Rightarrow> 'e + 'b) \<Rightarrow> 'e + 'b" where
  \<comment> \<open>an exception raised by the first computation ends the function\<close>
  "bind_err m f = (case m of Inl e \<Rightarrow> Inl e | Inr x \<Rightarrow> f x)"

section \<open>testing/mvo/optimizer.py and MVO\_BLM/mvo.py: mean-variance optimisation\<close>

definition normalize_weights :: "nat \<Rightarrow> vec \<Rightarrow> vec" where
  \<comment> \<open>the tail of both optimisers: divide by the sum, or fall back to equal weights\<close>
  "normalize_weights n raw_weights =
     (let s = sum_list raw_weights in
      if s > 0 then map (\<lambda>x. x / s) raw_weights else replicate n (1 / of_nat n))"

definition mean_variance_optimize ::
  "(mat \<Rightarrow> py_error + mat) \<Rightarrow> vec \<Rightarrow> mat \<Rightarrow> real \<Rightarrow> bool \<Rightarrow> py_error + vec" where
  "mean_variance_optimize pinv expected_returns covariance risk_aversion long_only =
     (let n = length expected_returns in
      if \<not> is_shape n n covariance then Inl ValueError
      else
        bind_err
          (case pinv covariance of
             Inr m \<Rightarrow> Inr m
           | Inl e \<Rightarrow>
               if e = LinAlgError
               then pinv (mat_add covariance (scal_mat (1 / 1000000) (eye n)))
               else Inl e)
          (\<lambda>inv_cov.
             if risk_aversion = 0 then Inl ZeroDivisionError
             else
               let raw = mat_vec (scal_mat (1 / risk_aversion) inv_cov) expected_returns;
                   raw_weights = (if long_only then map (max 0) raw else raw)
               in Inr (normalize_weights n raw_weights)))"

definition mean_variance_optimize_mvo ::
  "(mat \<Rightarrow> py_error + mat) \<Rightarrow> vec \<Rightarrow> mat \<Rightarrow> bool \<Rightarrow> py_error + vec" where
  "mean_variance_optimize_mvo pinv mu cov long_only =
     bind_err (pinv cov)
       (\<lambda>inv_cov.
          let w0 = mat_vec inv_cov mu;
              w = (if long_only then map (max 0) w0 else w0);
              s = sum_list w
          in if s = 0 then Inr (replicate (length w) (1 / of_nat (length w)))
             else Inr (map (\<lambda>x. x / s) w))"

section \<open>testing/mvo/optimizer.py and MVO\_BLM/blm.py: Black-Litterman\<close>

definition black_litterman ::
  "(mat \<Rightarrow> py_error + mat) \<Rightarrow> vec \<Rightarrow> mat \<Rightarrow> real \<Rightarrow> mat \<Rightarrow> vec \<Rightarrow> real \<Rightarrow> mat option \<Rightarrow>
   py_error + vec" where
  "black_litterman pinv market_weights covariance risk_aversion P Q tau Omega =
     bind_err (pinv covariance)
       (\<lambda>inv_cov.
          let pi = mat_vec (scal_mat risk_aversion covariance) market_weights in
          if mat_size P = 0 then Inr pi
          else
            let tauSigma = scal_mat tau covariance;
                Omega' =
                  (case Omega of
                     None \<Rightarrow> diag_mat (map (\<lambda>x. max x (1 / 100000000))
                                 (diag_of (mat_mul (mat_mul P tauSigma) (mat_T P))))
                   | Some Om \<Rightarrow>
                       if mat_size Om = 0
                       then diag_mat (map (\<lambda>x. max x (1 / 100000000))
                                 (diag_of (mat_mul (mat_mul P tauSigma) (mat_T P))))
                       else Om)
            in bind_err (pinv Omega')
                 (\<lambda>Om_inv1.
                    bind_err (pinv (mat_add inv_cov (mat_mul (mat_mul (mat_T P) Om_inv1) P)))
                      (\<lambda>M.
                         bind_err (pinv Omega')
                           (\<lambda>Om_inv2.
                              Inr (mat_vec M
                                     (vec_add (mat_vec inv_cov pi)
                                        (mat_vec (mat_mul (mat_T P) Om_inv2) Q)))))))"

definition black_litterman_blm ::
  "mat \<Rightarrow> vec \<Rightarrow> (string \<rightharpoonup> real) \<Rightarrow> string list \<Rightarrow> real \<Rightarrow> real \<Rightarrow> real \<Rightarrow>
   py_error + vec \<times> mat \<times> vec" where
  "black_litterman_blm cov market_weights views tickers risk_aversion tau omega_scale =
     (let n = length tickers in
      if length market_weights \<noteq> n then Inl ValueError
      else
        let s = sum_list market_weights;
            w_mkt = map (\<lambda>x. x / (if s \<noteq> 0 then s else 1)) market_weights;
            pi = scal_vec risk_aversion (mat_vec cov w_mkt);
            Q = map (\<lambda>t. case views t of Some v \<Rightarrow> v | None \<Rightarrow> 0) tickers;
            P = eye n;
            omega =
              scal_mat omega_scale
                (diag_mat (diag_of (mat_mul (mat_mul P (scal_mat tau cov)) (mat_T P))))
        in bind_err (linalg_inv (scal_mat tau cov))
             (\<lambda>inv_tau_cov.
                bind_err (linalg_inv omega)
                  (\<lambda>omega_inv.
                     let middle = mat_add inv_tau_cov (mat_mul (mat_mul (mat_T P) omega_inv) P);
                         right = vec_add (mat_vec inv_tau_cov pi)
                                   (mat_vec (mat_mul (mat_T P) omega_inv) Q)
                     in bind_err (linalg_inv middle)
                          (\<lambda>middle_inv1.
                             bind_err (linalg_inv middle)
                               (\<lambda>middle_inv2.
                                  Inr (mat_vec middle_inv1 right, middle_inv2, pi))))))"

text \<open>
  The posterior mean as the specification writes it, with the inverse of \<open>\<tau>\<Sigma>\<close> as the
  prior precision; \<open>invert\<close> is the inversion in use.
\<close>

definition posterior_mean_spec ::
  "(mat \<Rightarrow> py_error + mat) \<Rightarrow> real \<Rightarrow> mat \<Rightarrow> mat \<Rightarrow> mat \<Rightarrow> vec \<Rightarrow> vec \<Rightarrow> py_error + vec" where
  "posterior_mean_spec invert tau Sig P Omega prior Q =
     bind_err (invert (scal_mat tau Sig))
       (\<lambda>prior_precision.
          bind_err (invert Omega)
            (\<lambda>Omega_inv.
               bind_err
                 (invert (mat_add prior_precision (mat_mul (mat_mul (mat_T P) Omega_inv) P)))
                 (\<lambda>M. Inr (mat_vec M
                              (vec_add (mat_vec prior_precision prior)
                                 (mat_vec (mat_mul (mat_T P) Omega_inv) Q))))))"

section \<open>Predicates the properties are stated with\<close>

definition qty_nonneg :: "portfolio \<Rightarrow> bool" where
  \<comment> \<open>long-only: no holding has a negative quantity\<close>
  "qty_nonneg pf = list_all (\<lambda>(t, h). 0 \<le> totalAmount h) pf"



section \<open>Properties of the rebalancing engine\<close>

lemma cash_update_snapshot_prices: "cash (update_snapshot_prices s pr) = cash s"
  by (simp add: update_snapshot_prices_def Let_def)

lemma cash_force_cash_non_negative: "0 \<le> cash (force_cash_non_negative s pr)"
  by (simp add: force_cash_non_negative_def Let_def cash_update_snapshot_prices mk_snapshot_def
      split: prod.splits)

text \<open>
  C2. Every snapshot the backtest writes has gone through \<open>force_cash_non_negative\<close>
  after the rebalance (with its buy-unwind and emergency-sell loops) or after the
  revaluation, and its cash is not negative, for every starting snapshot, price map and
  target weights.
\<close>

theorem written_snapshot_cash_nonneg:
  "0 \<le> cash (write_rebalance s pr partial) \<and> 0 \<le> cash (write_revaluation s pr)"
  by (simp add: write_rebalance_def write_revaluation_def cash_force_cash_non_negative)

theorem written_snapshot_cash_nonneg_witness:
  "0 \<le> cash (write_rebalance
       (mk_snapshot [(''A'', \<lparr>totalAmount = 3, last_price = 10, entry_price = 10\<rparr>)] (- 25))
       [''A'' \<mapsto> 10] [(''A'', 1)])
   \<and> 0 \<le> cash (write_revaluation
       (mk_snapshot [(''A'', \<lparr>totalAmount = 3, last_price = 10, entry_price = 10\<rparr>)] (- 25))
       [''A'' \<mapsto> 10])"
  using written_snapshot_cash_nonneg
    [of "mk_snapshot [(''A'', \<lparr>totalAmount = 3, last_price = 10, entry_price = 10\<rparr>)] (- 25)"
        "[''A'' \<mapsto> 10]" "[(''A'', 1)]"]
  by simp

subsection \<open>The sell-down of a partial rebalance\<close>

text \<open>
  C4. One holding of 10 shares of A at 100 and 1000 of cash; the subset is A with weight 0,
  so the target quantity of A, 0, is below the 10 held. The sell-down loop credits the
  proceeds, 1000, to the working cash and reports the change from 10 to 0, but the new
  portfolio is copied from the previous one after that loop: the returned snapshot
  still holds 10 shares of A, and the equity correction takes the 1000 back out of the
  cash.
\<close>

theorem partial_sell_down_not_recorded:
  "partial_target_qty
     (mk_snapshot [(''A'', \<lparr>totalAmount = 10, last_price = 100, entry_price = 90\<rparr>)] 1000)
     [''A'' \<mapsto> 100] [(''A'', 0)] = [(''A'', 0)]
   \<and> partial_after_sells
     (mk_snapshot [(''A'', \<lparr>totalAmount = 10, last_price = 100, entry_price = 90\<rparr>)] 1000)
     [''A'' \<mapsto> 100] [(''A'', 0)] = (2000, [(''A'', 10, 0)])
   \<and> apply_partial_target_weights
     (mk_snapshot [(''A'', \<lparr>totalAmount = 10, last_price = 100, entry_price = 90\<rparr>)] 1000)
     [''A'' \<mapsto> 100] [(''A'', 0)] =
     (\<lparr>portfolio = [(''A'', \<lparr>totalAmount = 10, last_price = 100, entry_price = 90\<rparr>)],
       cash = 1000, portfolio_value = 2000, net_liquidation = 2000, liquid = 1000,
       buying_power = 2000\<rparr>,
      [(''A'', 10, 0)])"
  by code_simp

subsection \<open>Uniform scaling of the buys\<close>









lemma map_of_apply_buys:
  "t \<notin> (\<lambda>(t, need_q, px, cost). t) ` set reqs \<Longrightarrow>
   map_of (fst (apply_buys sc reqs (pf, c, ch, ab))) t = map_of pf t"
proof (induction reqs arbitrary: pf c ch ab)
  case Nil
  then show ?case by simp
next
  case (Cons r reqs)
  obtain t' need_q px cost where r: "r = (t', need_q, px, cost)" by (cases r) auto
  from Cons.prems have ne: "t' \<noteq> t" and rest: "t \<notin> (\<lambda>(t, need_q, px, cost). t) ` set reqs"
    by (auto simp: r)
  show ?case
    using ne by (simp add: r Let_def Cons.IH[OF rest] update_conv')
qed











subsection \<open>Tickers outside the subset\<close>

lemma buy_reqs_tickers:
  "(\<lambda>(t, need_q, px, cost). t) ` set (buy_reqs pr pf (target_qty_map pr pf (target_dollars e cap tw)))
     \<subseteq> fst ` set tw"
  by (force simp: buy_reqs_def target_qty_map_def target_dollars_def Let_def)

lemma cash_guard_nonneg: "0 \<le> c \<Longrightarrow> cash_guard pr (pf, c, ch, ab) = (pf, c, ch)"
  by (simp add: cash_guard_def)

lemma reprice_idem: "reprice pr (reprice pr pf) = reprice pr pf"
  by (induction pf) (auto simp: reprice_def split: option.splits)

lemma portfolio_enforce_equity: "portfolio (enforce_equity e pr pf c) = reprice pr pf"
  by (simp add: enforce_equity_def update_snapshot_prices_def mk_snapshot_def Let_def reprice_idem)

lemma map_of_reprice:
  "map_of (reprice pr pf) t = map_option (\<lambda>h. h\<lparr>last_price := cand_px pr t h\<rparr>) (map_of pf t)"
  by (induction pf) (auto simp: reprice_def cand_px_def split: option.splits)

text \<open>
  C10. When the cash is not negative after the scaled buys, so that neither the
  buy-unwind loop nor the emergency sells run, a ticker outside the target subset is in
  the returned portfolio exactly when it was in the starting one, with the same quantity
  and entry price; its last price is today's price when the price map has one and its
  previous last price otherwise.
\<close>

theorem partial_rebalance_frame:
  assumes "0 \<le> fst (snd (partial_after_buys s pr tw))" and "t \<notin> fst ` set tw"
  shows "map_of (portfolio (fst (apply_partial_target_weights s pr tw))) t =
           map_option (\<lambda>h. h\<lparr>last_price := cand_px pr t h\<rparr>) (map_of (portfolio s) t)"
proof -
  obtain pf c ch ab where ab: "partial_after_buys s pr tw = (pf, c, ch, ab)"
    by (cases "partial_after_buys s pr tw") auto
  with assms(1) have c: "0 \<le> c" by simp
  have "t \<notin> (\<lambda>(t, need_q, px, cost). t) ` set (partial_buy_reqs s pr tw)"
    using assms(2) buy_reqs_tickers unfolding partial_buy_reqs_def partial_target_qty_def Let_def
    by blast
  then have "map_of (fst (partial_after_buys s pr tw)) t = map_of (portfolio s) t"
    by (simp add: partial_after_buys_def map_of_apply_buys split: prod.splits)
  then have pf: "map_of pf t = map_of (portfolio s) t" by (simp add: ab)
  show ?thesis
    by (simp add: apply_partial_target_weights_def ab cash_guard_nonneg[OF c]
        portfolio_enforce_equity map_of_reprice pf)
qed

theorem partial_rebalance_frame_witness:
  "map_of (portfolio (fst (apply_partial_target_weights
     (mk_snapshot [(''D'', \<lparr>totalAmount = 940, last_price = 90, entry_price = 80\<rparr>)] 6000)
     [''A'' \<mapsto> 100, ''B'' \<mapsto> 50, ''D'' \<mapsto> 100] [(''A'', 1), (''B'', 1)]))) ''D''
   = Some \<lparr>totalAmount = 940, last_price = 100, entry_price = 80\<rparr>"
proof -
  let ?s = "mk_snapshot [(''D'', \<lparr>totalAmount = 940, last_price = 90, entry_price = 80\<rparr>)] 6000"
  let ?pr = "[''A'' \<mapsto> 100, ''B'' \<mapsto> 50, ''D'' \<mapsto> (100::real)]"
  let ?tw = "[(''A'', 1), (''B'', 1::real)]"
  have c: "0 \<le> fst (snd (partial_after_buys ?s ?pr ?tw))"
    by code_simp
  have t: "''D'' \<notin> fst ` set ?tw"
    by simp
  show ?thesis
    using partial_rebalance_frame[OF c t]
    by (simp add: mk_snapshot_def cand_px_def)
qed

subsection \<open>Long-only\<close>

lemma qty_nonneg_update:
  "qty_nonneg pf \<Longrightarrow> 0 \<le> totalAmount h \<Longrightarrow> qty_nonneg (AList.update t h pf)"
  by (induction pf) (auto simp: qty_nonneg_def)

lemma qty_nonneg_get_qty: "qty_nonneg pf \<Longrightarrow> 0 \<le> get_qty pf t"
  by (auto simp: qty_nonneg_def get_qty_def list_all_iff split: option.splits dest!: map_of_SomeD)

lemma qty_nonneg_reprice: "qty_nonneg (reprice pr pf) = qty_nonneg pf"
  by (induction pf) (auto simp: qty_nonneg_def reprice_def split: option.splits)

lemma qty_nonneg_drop_zero: "qty_nonneg (drop_zero pf)"
  by (induction pf) (auto simp: qty_nonneg_def drop_zero_def)

lemma qty_nonneg_rebalance_loop:
  "qty_nonneg np \<Longrightarrow> qty_nonneg (fst (rebalance_loop pr prev zs (np, c, ch)))"
proof (induction zs arbitrary: np c ch)
  case Nil
  then show ?case by simp
next
  case (Cons z zs)
  obtain t td where z: "z = (t, td)" by (cases z) auto
  show ?case
    using Cons.prems
    by (auto simp: z Let_def intro!: Cons.IH qty_nonneg_update)
qed

lemma qty_nonneg_keep_unpriced:
  "qty_nonneg np \<Longrightarrow> qty_nonneg r \<Longrightarrow> qty_nonneg (keep_unpriced pr r np)"
proof (induction r arbitrary: np)
  case Nil
  then show ?case by simp
next
  case (Cons z r)
  obtain t info where z: "z = (t, info)" by (cases z) auto
  from Cons.prems(2) have h: "0 \<le> totalAmount info" and r: "qty_nonneg r"
    by (auto simp: z qty_nonneg_def)
  show ?case
    using Cons.prems(1) h r
    by (auto simp: z intro!: Cons.IH qty_nonneg_update)
qed

lemma qty_nonneg_apply_target_weights:
  assumes "qty_nonneg (portfolio s)"
  shows "qty_nonneg (portfolio (fst (apply_target_weights s tickers pr ws)))"
proof -
  have e: "qty_nonneg []" by (simp add: qty_nonneg_def)
  show ?thesis
    using qty_nonneg_rebalance_loop[OF e] assms
    apply (simp add: apply_target_weights_def Let_def update_snapshot_prices_def mk_snapshot_def
        qty_nonneg_reprice split: prod.splits)
    by (metis fst_conv qty_nonneg_keep_unpriced)
qed

lemma qty_nonneg_apply_buys:
  "qty_nonneg pf \<Longrightarrow> qty_nonneg (fst (apply_buys sc reqs (pf, c, ch, ab)))"
proof (induction reqs arbitrary: pf c ch ab)
  case Nil
  then show ?case by simp
next
  case (Cons r reqs)
  obtain t need_q px cost where r: "r = (t, need_q, px, cost)" by (cases r) auto
  show ?case
    using Cons.prems qty_nonneg_get_qty[OF Cons.prems, of t]
    by (auto simp: r Let_def intro!: Cons.IH qty_nonneg_update)
qed

lemma qty_nonneg_cash_guard:
  "qty_nonneg pf \<Longrightarrow> qty_nonneg (fst (cash_guard pr (pf, c, ch, ab)))"
  by (auto simp: cash_guard_def Let_def qty_nonneg_drop_zero split: prod.splits)

lemma qty_nonneg_apply_partial:
  assumes "qty_nonneg (portfolio s)"
  shows "qty_nonneg (portfolio (fst (apply_partial_target_weights s pr tw)))"
proof -
  obtain pf c ch ab where ab: "partial_after_buys s pr tw = (pf, c, ch, ab)"
    by (cases "partial_after_buys s pr tw") auto
  have "qty_nonneg (fst (partial_after_buys s pr tw))"
    using assms by (simp add: partial_after_buys_def qty_nonneg_apply_buys split: prod.splits)
  then have "qty_nonneg pf" by (simp add: ab)
  then have "qty_nonneg (fst (cash_guard pr (pf, c, ch, ab)))"
    by (rule qty_nonneg_cash_guard)
  then show ?thesis
    by (auto simp: apply_partial_target_weights_def ab portfolio_enforce_equity qty_nonneg_reprice
        split: prod.splits)
qed

lemma clamp_apply_target_weights:
  "apply_target_weights s tickers pr (map (max 0) ws) = apply_target_weights s tickers pr ws"
  by (simp add: apply_target_weights_def Let_def comp_def)

lemma clamp_subset_value:
  "subset_value temp pr (map (\<lambda>(t, w). (t, max 0 w)) tw) = subset_value temp pr tw"
  by (simp add: subset_value_def comp_def case_prod_unfold)

lemma clamp_target_dollars:
  "target_dollars e cap (map (\<lambda>(t, w). (t, max 0 w)) tw) = target_dollars e cap tw"
  by (simp add: target_dollars_def comp_def case_prod_unfold)

lemma clamp_partial_target_qty:
  "partial_target_qty s pr (map (\<lambda>(t, w). (t, max 0 w)) tw) = partial_target_qty s pr tw"
  by (simp add: partial_target_qty_def Let_def clamp_subset_value clamp_target_dollars)

lemma clamp_apply_partial:
  "apply_partial_target_weights s pr (map (\<lambda>(t, w). (t, max 0 w)) tw) =
   apply_partial_target_weights s pr tw"
  by (simp add: apply_partial_target_weights_def partial_after_buys_def partial_scale_def
      partial_allowable_budget_def partial_after_sells_def partial_buy_reqs_def
      clamp_partial_target_qty)

text \<open>
  C3. From a starting snapshot whose quantities are all non-negative, for every price
  map and every target weights, negative ones included, every holding of the snapshot
  that \<open>apply_target_weights\<close> returns and of the one that
  \<open>apply_partial_target_weights\<close> returns has a non-negative quantity. A negative weight
  is clamped to 0: both functions return what they return when every negative weight is
  replaced by 0.
\<close>

theorem quantities_nonneg:
  assumes "qty_nonneg (portfolio s)"
  shows "qty_nonneg (portfolio (fst (apply_target_weights s tickers pr ws)))
       \<and> qty_nonneg (portfolio (fst (apply_partial_target_weights s pr tw)))
       \<and> apply_target_weights s tickers pr ws = apply_target_weights s tickers pr (map (max 0) ws)
       \<and> apply_partial_target_weights s pr tw =
           apply_partial_target_weights s pr (map (\<lambda>(t, w). (t, max 0 w)) tw)"
  using assms
  by (simp add: qty_nonneg_apply_target_weights qty_nonneg_apply_partial
      clamp_apply_target_weights clamp_apply_partial)


theorem quantities_nonneg_witness:
  "qty_nonneg (portfolio
       (mk_snapshot [(''A'', \<lparr>totalAmount = 10, last_price = 100, entry_price = 90\<rparr>)] 1000))
   \<and> qty_nonneg (portfolio (fst (apply_target_weights
       (mk_snapshot [(''A'', \<lparr>totalAmount = 10, last_price = 100, entry_price = 90\<rparr>)] 1000)
       [''A'', ''B''] [''A'' \<mapsto> 100, ''B'' \<mapsto> 7] [- 1, 1 / 2])))
   \<and> qty_nonneg (portfolio (fst (apply_partial_target_weights
       (mk_snapshot [(''A'', \<lparr>totalAmount = 10, last_price = 100, entry_price = 90\<rparr>)] 1000)
       [''A'' \<mapsto> 100, ''B'' \<mapsto> 7] [(''A'', - 1), (''B'', 1 / 2)])))"
proof -
  have h: "qty_nonneg (portfolio
       (mk_snapshot [(''A'', \<lparr>totalAmount = 10, last_price = 100, entry_price = 90\<rparr>)] 1000))"
    by (simp add: qty_nonneg_def mk_snapshot_def)
  show ?thesis
    using h quantities_nonneg[OF h, of "[''A'', ''B'']" "[''A'' \<mapsto> 100, ''B'' \<mapsto> 7]"
        "[- 1, 1 / 2]" "[(''A'', - 1), (''B'', 1 / 2)]"]
    by blast
qed

subsection \<open>Equity invariance\<close>






























section \<open>Properties of the trade sizing\<close>








section \<open>Properties of the optimisers\<close>

lemma sum_list_div: "sum_list (map (\<lambda>x. x / s) xs) = sum_list xs / (s::real)"
  by (induction xs) (simp_all add: add_divide_distrib)

lemma sum_list_clip_nonneg: "0 \<le> sum_list (map (max 0) (xs::real list))"
  by (induction xs) simp_all

lemma clip_all_nonpos:
  "list_all (\<lambda>x. x \<le> 0) xs \<Longrightarrow> sum_list (map (max 0) (xs::real list)) = 0"
  by (induction xs) (simp_all add: max_def)

lemma normalize_weights_valid:
  assumes "0 < n" and "list_all (\<lambda>x. 0 \<le> x) xs"
  shows "list_all (\<lambda>x. 0 \<le> x) (normalize_weights n xs) \<and> sum_list (normalize_weights n xs) = 1"
proof (cases "0 < sum_list xs")
  case True
  then show ?thesis
    using assms(2)
    by (simp add: normalize_weights_def Let_def sum_list_div list_all_iff)
next
  case False
  then show ?thesis
    using assms(1)
    by (simp add: normalize_weights_def Let_def list_all_iff sum_list_replicate)
qed

lemma clip_nonneg: "list_all (\<lambda>x. 0 \<le> x) (map (max 0) (xs::real list))"
  by (simp add: list_all_iff)

lemma mvo_mvo_tail:
  "(let w = map (max 0) w0; s = sum_list w
    in if s = 0 then Inr (replicate (length w) (1 / of_nat (length w)))
       else (Inr (map (\<lambda>x. x / s) w) :: py_error + vec))
   = Inr (normalize_weights (length w0) (map (max 0) w0))"
  using sum_list_clip_nonneg[of w0]
  by (auto simp: normalize_weights_def Let_def)

lemma mvo_optimizer_result:
  assumes "is_shape (length expected_returns) (length expected_returns) covariance"
    and "risk_aversion \<noteq> 0"
    and "pinv covariance = Inr inv_cov \<or>
         pinv covariance = Inl LinAlgError \<and>
         pinv (mat_add covariance (scal_mat (1 / 1000000) (eye (length expected_returns))))
           = Inr inv_cov"
  shows "mean_variance_optimize pinv expected_returns covariance risk_aversion True =
         Inr (normalize_weights (length expected_returns)
                (map (max 0) (mat_vec (scal_mat (1 / risk_aversion) inv_cov) expected_returns)))"
  using assms by (auto simp: mean_variance_optimize_def Let_def bind_err_def)

lemma mvo_mvo_result:
  assumes "pinv cov = Inr inv_cov" and "length inv_cov = length mu"
  shows "mean_variance_optimize_mvo pinv mu cov True =
         Inr (normalize_weights (length mu) (map (max 0) (mat_vec inv_cov mu)))"
proof -
  have l: "length (mat_vec inv_cov mu) = length mu" using assms(2) by (simp add: mat_vec_def)
  show ?thesis
    unfolding mean_variance_optimize_mvo_def bind_err_def assms(1)
    using mvo_mvo_tail[of "mat_vec inv_cov mu"] by (simp add: l Let_def)
qed

lemma normalize_weights_long_only:
  assumes "0 < n"
  shows "list_all (\<lambda>x. 0 \<le> x) (normalize_weights n (map (max 0) raw)) \<and>
         sum_list (normalize_weights n (map (max 0) raw)) = 1 \<and>
         (list_all (\<lambda>x. x \<le> 0) raw \<longrightarrow>
            normalize_weights n (map (max 0) raw) = replicate n (1 / of_nat n))"
  using normalize_weights_valid[OF assms clip_nonneg, of raw]
  by (auto simp: normalize_weights_def Let_def clip_all_nonpos)

text \<open>
  C7. For every non-empty expected-return vector and N x N covariance, both optimisers
  called with \<open>long_only=True\<close> return a weight vector whose entries are all
  non-negative and sum to 1 (exactly, so within 1e-9), and when no raw weight is
  positive, so that every clipped weight is 0, the vector is the equal weights 1/N.
  The pseudo-inverse is numpy's: \<open>optimizer.py\<close> uses the one of the covariance, or of
  the covariance plus 1e-6 on the diagonal when the first call raises \<open>LinAlgError\<close>,
  and divides by a risk aversion that is not 0; \<open>mvo.py\<close> uses the one of the
  covariance, an N x N matrix.
\<close>

theorem mean_variance_optimize_long_only:
  assumes "expected_returns \<noteq> []"
    and "is_shape (length expected_returns) (length expected_returns) covariance"
  shows
    "(risk_aversion \<noteq> 0 \<and>
      (pinv covariance = Inr inv_cov \<or>
       pinv covariance = Inl LinAlgError \<and>
       pinv (mat_add covariance (scal_mat (1 / 1000000) (eye (length expected_returns))))
         = Inr inv_cov) \<longrightarrow>
      (\<exists>w. mean_variance_optimize pinv expected_returns covariance risk_aversion True = Inr w \<and>
           list_all (\<lambda>x. 0 \<le> x) w \<and> sum_list w = 1 \<and> \<bar>sum_list w - 1\<bar> \<le> 1 / 1000000000 \<and>
           (list_all (\<lambda>x. x \<le> 0)
              (mat_vec (scal_mat (1 / risk_aversion) inv_cov) expected_returns) \<longrightarrow>
            w = replicate (length expected_returns) (1 / of_nat (length expected_returns)))))
     \<and>
     (pinv covariance = Inr inv_cov \<and> length inv_cov = length expected_returns \<longrightarrow>
      (\<exists>w. mean_variance_optimize_mvo pinv expected_returns covariance True = Inr w \<and>
           list_all (\<lambda>x. 0 \<le> x) w \<and> sum_list w = 1 \<and> \<bar>sum_list w - 1\<bar> \<le> 1 / 1000000000 \<and>
           (list_all (\<lambda>x. x \<le> 0) (mat_vec inv_cov expected_returns) \<longrightarrow>
            w = replicate (length expected_returns) (1 / of_nat (length expected_returns)))))"
proof -
  have n: "0 < length expected_returns" using assms(1) by simp
  show ?thesis
  proof (intro conjI impI)
    assume a: "risk_aversion \<noteq> 0 \<and>
      (pinv covariance = Inr inv_cov \<or>
       pinv covariance = Inl LinAlgError \<and>
       pinv (mat_add covariance (scal_mat (1 / 1000000) (eye (length expected_returns))))
         = Inr inv_cov)"
    show "\<exists>w. mean_variance_optimize pinv expected_returns covariance risk_aversion True = Inr w \<and>
           list_all (\<lambda>x. 0 \<le> x) w \<and> sum_list w = 1 \<and> \<bar>sum_list w - 1\<bar> \<le> 1 / 1000000000 \<and>
           (list_all (\<lambda>x. x \<le> 0)
              (mat_vec (scal_mat (1 / risk_aversion) inv_cov) expected_returns) \<longrightarrow>
            w = replicate (length expected_returns) (1 / of_nat (length expected_returns)))"
      using mvo_optimizer_result[OF assms(2), of risk_aversion pinv inv_cov] a
        normalize_weights_long_only[OF n,
          of "mat_vec (scal_mat (1 / risk_aversion) inv_cov) expected_returns"]
      by simp
  next
    assume a: "pinv covariance = Inr inv_cov \<and> length inv_cov = length expected_returns"
    show "\<exists>w. mean_variance_optimize_mvo pinv expected_returns covariance True = Inr w \<and>
           list_all (\<lambda>x. 0 \<le> x) w \<and> sum_list w = 1 \<and> \<bar>sum_list w - 1\<bar> \<le> 1 / 1000000000 \<and>
           (list_all (\<lambda>x. x \<le> 0) (mat_vec inv_cov expected_returns) \<longrightarrow>
            w = replicate (length expected_returns) (1 / of_nat (length expected_returns)))"
      using mvo_mvo_result[of pinv covariance inv_cov expected_returns] a
        normalize_weights_long_only[OF n, of "mat_vec inv_cov expected_returns"]
      by simp
  qed
qed

theorem mean_variance_optimize_long_only_witness:
  "mean_variance_optimize pinv_diag [- 1, - 2] [[1, 0], [0, 1]] 3 True = Inr [1 / 2, 1 / 2]
   \<and> mean_variance_optimize_mvo pinv_diag [- 1, - 2] [[1, 0], [0, 1]] True = Inr [1 / 2, 1 / 2]"
proof -
  have h: "[- 1, - 2 :: real] \<noteq> []"
    "is_shape (length [- 1, - 2 :: real]) (length [- 1, - 2 :: real]) [[1, 0], [0, 1]]"
    by (simp_all add: is_shape_def)
  have p: "pinv_diag [[1, 0], [0, 1]] = Inr [[1, 0], [0, 1]]"
    by (simp add: pinv_diag_def)
  have r1: "list_all (\<lambda>x. x \<le> 0) (mat_vec (scal_mat (1 / 3) [[1, 0], [0, 1]]) [- 1, - 2])"
    by (simp add: mat_vec_def scal_mat_def dot_def)
  have r2: "list_all (\<lambda>x. x \<le> 0) (mat_vec [[1, 0], [0, 1]] [- 1, - 2])"
    by (simp add: mat_vec_def dot_def)
  have rep: "replicate (length [- 1, - 2 :: real]) (1 / of_nat (length [- 1, - 2 :: real]))
             = [1 / 2, 1 / 2 :: real]"
    by (simp add: numeral_2_eq_2)
  show ?thesis
    using mean_variance_optimize_long_only[OF h, of 3 pinv_diag "[[1, 0], [0, 1]]"] p r1 r2
    unfolding rep by auto
qed

section \<open>Properties of the view fusion\<close>

text \<open>
  With no views \<open>optimizer.py\<close> returns the equilibrium returns, and its every
  inversion is a pseudo-inverse: it returns whenever numpy's \<open>pinv\<close> does.
\<close>

lemma black_litterman_no_views:
  assumes "pinv covariance = Inr inv_cov" and "mat_size P = 0"
  shows "black_litterman pinv market_weights covariance risk_aversion P Q tau Omega =
         Inr (mat_vec (scal_mat risk_aversion covariance) market_weights)"
  using assms by (simp add: black_litterman_def bind_err_def Let_def)

lemma black_litterman_returns:
  assumes "\<And>A. \<exists>X. pinv A = Inr X"
  shows "\<exists>mu. black_litterman pinv market_weights covariance risk_aversion P Q tau Omega = Inr mu"
proof -
  have b: "\<And>A (f :: mat \<Rightarrow> py_error + vec). bind_err (pinv A) f = f (SOME X. pinv A = Inr X)"
  proof -
    fix A and f :: "mat \<Rightarrow> py_error + vec"
    obtain X where X: "pinv A = Inr X" using assms by blast
    then have "(SOME X. pinv A = Inr X) = X" by simp
    then show "bind_err (pinv A) f = f (SOME X. pinv A = Inr X)"
      by (simp add: bind_err_def X)
  qed
  show ?thesis
    unfolding black_litterman_def Let_def b by (simp split: option.splits)
qed

text \<open>
  \<open>blm.py\<close> follows the posterior mean of the specification, with the strict inverse:
  when it returns, its mean is that formula's; when \<open>\<tau>\<Sigma>\<close> is singular it raises.
\<close>

lemma black_litterman_blm_is_spec:
  assumes "black_litterman_blm cov market_weights views tickers risk_aversion tau omega_scale
             = Inr (mu_bl, cov_bl, prior)"
  shows "posterior_mean_spec linalg_inv tau cov (eye (length tickers))
           (scal_mat omega_scale
              (diag_mat (diag_of (mat_mul (mat_mul (eye (length tickers)) (scal_mat tau cov))
                                    (mat_T (eye (length tickers)))))))
           prior
           (map (\<lambda>t. case views t of Some v \<Rightarrow> v | None \<Rightarrow> 0) tickers)
         = Inr mu_bl"
  using assms
  by (auto simp: black_litterman_blm_def posterior_mean_spec_def bind_err_def Let_def
      split: if_splits sum.splits)

lemma black_litterman_blm_singular:
  assumes "length market_weights = length tickers" and "det (scal_mat tau cov) = 0"
  shows "black_litterman_blm cov market_weights views tickers risk_aversion tau omega_scale
           = Inl LinAlgError"
  using assms by (simp add: black_litterman_blm_def bind_err_def Let_def linalg_inv_def)

lemma pinv_diag_1x1: "\<exists>X. pinv_diag [[a]] = Inr X \<and> is_pinv [[a]] X"
  by (simp add: pinv_diag_def is_pinv_def mat_mul_def mat_T_def dot_def)

text \<open>
  C8. One asset with variance 1, market weight 1, risk aversion 1, prior scale 1/2, and
  one view that the asset returns 4 with uncertainty 1. The equilibrium return is 1.
  With the inverse of \<open>\<tau>\<Sigma>\<close>, 2, as the prior precision, the posterior mean is
  (2 * 1 + 4) / (2 + 1) = 2, and that is what \<open>blm.py\<close> returns. \<open>optimizer.py\<close>
  uses the pseudo-inverse of \<open>\<Sigma>\<close> itself, 1, for the prior precision, and
  returns (1 * 1 + 4) / (1 + 1) = 5/2.
\<close>

theorem black_litterman_prior_precision:
  "black_litterman pinv_diag [1] [[1]] 1 [[1]] [4] (1 / 2) (Some [[1]]) = Inr [5 / 2]
   \<and> posterior_mean_spec pinv_diag (1 / 2) [[1]] [[1]] [[1]] [1] [4] = Inr [2]
   \<and> black_litterman_blm [[1]] [1] [''A'' \<mapsto> 4] [''A''] 1 (1 / 2) 2 = Inr ([2], [[1 / 3]], [1])"
  by code_simp

text \<open>
  C9. \<open>blm.py\<close> inverts with \<open>np.linalg.inv\<close>: on the covariance of one asset
  whose price did not move, the 1 x 1 zero matrix, and on the covariance of two perfectly
  correlated assets, it raises \<open>LinAlgError\<close>.
\<close>

theorem black_litterman_blm_singular_raises:
  "black_litterman_blm [[0]] [1] Map.empty [''A''] 3 (1 / 40) (1 / 2) = Inl LinAlgError
   \<and> black_litterman_blm [[1, 1], [1, 1]] [1 / 2, 1 / 2] Map.empty [''A'', ''B''] 3 (1 / 40) (1 / 2)
       = Inl LinAlgError"
  by code_simp

end
